theory Spec2Isabelle
  imports Main "HOL-Library.Sublist"
begin

section \<open>Shared values\<close>

text \<open>
  Exceptions of the repositories are values of one datatype; a function that may throw
  returns \<open>error + 'a\<close>, with \<open>Inl\<close> for the exception.
  \<^item> \<open>ConflictException msg\<close>: the NestJS exception thrown by the repositories;
  \<^item> \<open>EntityNotFoundError\<close>: thrown by \<open>findOneOrFail\<close>;
  \<^item> \<open>QueryFailedError code\<close>: a rejected statement, with the error code of the database;
  \<^item> \<open>TypeError\<close>: reading a property of \<open>undefined\<close>;
  \<^item> \<open>Error msg\<close>: a plain JavaScript \<open>Error\<close>.
\<close>

datatype error =
    ConflictException string
  | EntityNotFoundError
  | QueryFailedError string
  | TypeError
  | Error string

fun isConflict :: "error + 'a \<Rightarrow> bool" where
  "isConflict (Inl (ConflictException msg)) = True"
| "isConflict r = False"

section \<open>GroupRepository\<close>

text \<open>
  A row of the group table. \<open>g_password = None\<close> is the SQL \<open>null\<close>.
\<close>

record Group =
  g_id :: string
  g_courseId :: string
  g_name :: string
  g_password :: "string option"
  g_isClosed :: bool
  g_createdAt :: nat

text \<open>
  The creation DTO. An optional property is an option: \<open>None\<close> stands for
  \<open>undefined\<close> (and \<open>null\<close>), which the code does not tell apart here.
\<close>

record GroupDto =
  gd_name :: string
  gd_password :: "string option"
  gd_isClosed :: "bool option"

record GroupUpdateDto =
  gu_name :: "string option"
  gu_password :: "string option"
  gu_isClosed :: "bool option"

text \<open>
  \<open>createEntityFromDto\<close>: only name, password and isClosed are assigned; the identifier,
  the course and the creation date are filled in when the row is saved, so the entity
  built here is the triple of the assigned fields.
\<close>

record GroupEntity =
  ge_name :: string
  ge_password :: "string option"
  ge_isClosed :: bool

definition createEntityFromDto :: "GroupDto \<Rightarrow> GroupEntity" where
  "createEntityFromDto groupDto =
     \<lparr> ge_name = gd_name groupDto,
       ge_password =
         (case gd_password groupDto of
            None \<Rightarrow> None
          | Some p \<Rightarrow> if length p > 0 then Some p else None),
       ge_isClosed = (case gd_isClosed groupDto of Some True \<Rightarrow> True | _ \<Rightarrow> False) \<rparr>"

text \<open>The tables the group repository works on.\<close>

record UserGroupRelation =
  ugr_id :: nat
  ugr_userId :: string
  ugr_groupId :: string
  ugr_participantId :: nat

record Participant =
  p_id :: nat
  p_courseId :: string
  p_userId :: string

datatype EventType = INSERT | UPDATE | REMOVE

datatype AffectedObject = USER_GROUP_RELATION

record UpdateMessageDto =
  um_type :: EventType
  um_affectedObject :: AffectedObject
  um_courseId :: string
  um_entityId :: string
  um_entityId_relation :: string

record GroupStore =
  groups :: "Group list"
  userGroupRelations :: "UserGroupRelation list"
  participants :: "Participant list"
  updateMessages :: "UpdateMessageDto list"
  nextRelationId :: nat

text \<open>
  \<open>getGroupById\<close> is \<open>findOneOrFail(groupId)\<close>: the row with that primary key, or
  \<open>EntityNotFoundError\<close>.
\<close>

definition getGroupById :: "string \<Rightarrow> GroupStore \<Rightarrow> error + Group" where
  "getGroupById groupId s =
     (case find (\<lambda>g. g_id g = groupId) (groups s) of
        None \<Rightarrow> Inl EntityNotFoundError
      | Some g \<Rightarrow> Inr g)"

text \<open>\<open>save(group)\<close> of a loaded group writes the row with that primary key.\<close>

definition saveGroup :: "Group \<Rightarrow> GroupStore \<Rightarrow> GroupStore" where
  "saveGroup g s = s\<lparr> groups := map (\<lambda>g'. if g_id g' = g_id g then g else g') (groups s) \<rparr>"

text \<open>
  \<open>updateGroup\<close>: the empty string removes the password, a non-empty one replaces it,
  \<open>undefined\<close> and \<open>null\<close> leave it; name and isClosed are taken from the update when
  it has them (\<open>??\<close>).
\<close>

definition updateGroup :: "string \<Rightarrow> GroupUpdateDto \<Rightarrow> GroupStore \<Rightarrow> error + (Group \<times> GroupStore)" where
  "updateGroup groupId update s =
     (case getGroupById groupId s of
        Inl e \<Rightarrow> Inl e
      | Inr grp \<Rightarrow>
          let group1 =
                (if gu_password update = Some [] then grp\<lparr> g_password := None \<rparr>
                 else (case gu_password update of
                         Some p \<Rightarrow> grp\<lparr> g_password := Some p \<rparr>
                       | None \<Rightarrow> grp));
              group2 = group1\<lparr> g_name := (case gu_name update of Some n \<Rightarrow> n | None \<Rightarrow> g_name group1) \<rparr>;
              group3 = group2\<lparr> g_isClosed := (case gu_isClosed update of Some c \<Rightarrow> c | None \<Rightarrow> g_isClosed group2) \<rparr>
          in Inr (group3, saveGroup group3 s))"


text \<open>\<open>deleteGroup\<close>: DELETE by primary key; true when one row was affected.\<close>

definition deleteGroup :: "string \<Rightarrow> GroupStore \<Rightarrow> bool \<times> GroupStore" where
  "deleteGroup groupId s =
     (let affected = length (filter (\<lambda>g. g_id g = groupId) (groups s))
      in (affected = 1, s\<lparr> groups := filter (\<lambda>g. g_id g \<noteq> groupId) (groups s) \<rparr>))"

text \<open>
  \<open>i.toString()\<close> for a non-negative integer: its decimal digits, no leading zero.
\<close>

function toString :: "nat \<Rightarrow> string" where
  "toString n =
     (if n < 10 then [''0123456789'' ! n]
      else toString (n div 10) @ [''0123456789'' ! (n mod 10)])"
  by pat_completeness auto
termination
  by (relation "measure id") auto

declare toString.simps [simp del]

text \<open>
  \<open>tryFindAvailableName\<close>: the loop \<open>for (let i = 1; i <= 9999; i++)\<close> returns the first
  suggestion \<open>schema + i.toString()\<close> that is the name of none of the given groups, and
  throws \<open>Error("No available group name.")\<close> after the last round.
\<close>

function tryFindAvailableName_loop :: "nat \<Rightarrow> Group list \<Rightarrow> string \<Rightarrow> error + string" where
  "tryFindAvailableName_loop i gs schema =
     (if i \<le> 9999 then
        (let suggestion = schema @ toString i
         in if find (\<lambda>g. g_name g = suggestion) gs = None then Inr suggestion
            else tryFindAvailableName_loop (Suc i) gs schema)
      else Inl (Error ''No available group name.''))"
  by pat_completeness auto
termination
  by (relation "measure (\<lambda>(i, gs, schema). 10000 - i)") auto

declare tryFindAvailableName_loop.simps [simp del]

definition tryFindAvailableName :: "Group list \<Rightarrow> string \<Rightarrow> error + string" where
  "tryFindAvailableName gs schema = tryFindAvailableName_loop 1 gs schema"

text \<open>
  \<open>getAvailableGroupNameForSchema\<close> loads the groups of the course whose name matches
  \<open>ILIKE '%schema%'\<close>, newest first, and hands them to \<open>tryFindAvailableName\<close>. The pattern
  matching is the database's; it is the parameter \<open>ilike pattern value\<close>.
\<close>

definition loadedGroups ::
  "(string \<Rightarrow> string \<Rightarrow> bool) \<Rightarrow> string \<Rightarrow> string \<Rightarrow> GroupStore \<Rightarrow> Group list" where
  "loadedGroups ilike courseId schema s =
     rev (sort_key g_createdAt
       (filter (\<lambda>g. g_courseId g = courseId \<and> ilike (''%'' @ schema @ ''%'') (g_name g))
          (groups s)))"

definition getAvailableGroupNameForSchema ::
  "(string \<Rightarrow> string \<Rightarrow> bool) \<Rightarrow> string \<Rightarrow> string \<Rightarrow> GroupStore \<Rightarrow> error + string" where
  "getAvailableGroupNameForSchema ilike courseId schema s =
     (let gs = loadedGroups ilike courseId schema s
      in tryFindAvailableName gs schema)"

text \<open>
  The existing group names of a course, which the name generation is to avoid.
\<close>

definition nameTaken :: "string \<Rightarrow> GroupStore \<Rightarrow> string \<Rightarrow> bool" where
  "nameTaken courseId s name =
     list_ex (\<lambda>g. g_courseId g = courseId \<and> g_name g = name) (groups s)"

text \<open>
  One instance of the matcher, for a pattern \<open>%schema%\<close> whose schema has no wildcard of
  its own: the value contains the schema, letter case ignored.
\<close>

definition lowerChar :: "char \<Rightarrow> char" where
  "lowerChar c =
     (if (65::nat) \<le> of_char c \<and> of_char c \<le> (90::nat) then char_of (of_char c + (32::nat))
      else c)"

definition ilikeContains :: "string \<Rightarrow> string \<Rightarrow> bool" where
  "ilikeContains pattern v = sublist (map lowerChar (butlast (tl pattern))) (map lowerChar v)"

text \<open>
  A fixture for the name generation: \<open>n\<close> groups of one course, named \<open>schema + 1\<close> up to
  \<open>schema + n\<close>.
\<close>

definition numberedGroup :: "string \<Rightarrow> string \<Rightarrow> nat \<Rightarrow> Group" where
  "numberedGroup courseId schema i =
     \<lparr> g_id = schema @ toString i, g_courseId = courseId, g_name = schema @ toString i,
       g_password = None, g_isClosed = False, g_createdAt = i \<rparr>"

definition numberedGroups :: "string \<Rightarrow> string \<Rightarrow> nat \<Rightarrow> Group list" where
  "numberedGroups courseId schema n = map (numberedGroup courseId schema) [1..<Suc n]"

subsection \<open>UserGroupRelationSubscriber\<close>

text \<open>
  \<open>reloadEntityWithRequiredRelations\<close>: \<open>findOne(entity.id, { relations: ["group"] })\<close> on the
  table as it is when the hook runs. The result is \<open>undefined\<close> (\<open>None\<close>) when no row has
  that identifier; the loaded \<open>group\<close> is the group row of the membership, when there is one.
\<close>

definition reloadEntityWithRequiredRelations ::
  "GroupStore \<Rightarrow> UserGroupRelation \<Rightarrow> (UserGroupRelation \<times> Group option) option" where
  "reloadEntityWithRequiredRelations s entity =
     (case find (\<lambda>r. ugr_id r = ugr_id entity) (userGroupRelations s) of
        None \<Rightarrow> None
      | Some r \<Rightarrow> Some (r, find (\<lambda>g. g_id g = ugr_groupId r) (groups s)))"

text \<open>
  \<open>createMessage\<close> reads \<open>entity.group.courseId\<close>, \<open>entity.userId\<close> and \<open>entity.groupId\<close>:
  a \<open>TypeError\<close> when \<open>entity\<close> or \<open>entity.group\<close> is \<open>undefined\<close>.
\<close>

definition createMessage ::
  "EventType \<Rightarrow> (UserGroupRelation \<times> Group option) option \<Rightarrow> error + UpdateMessageDto" where
  "createMessage type entity =
     (case entity of
        None \<Rightarrow> Inl TypeError
      | Some (r, None) \<Rightarrow> Inl TypeError
      | Some (r, Some g) \<Rightarrow>
          Inr \<lparr> um_type = type, um_affectedObject = USER_GROUP_RELATION,
                um_courseId = g_courseId g, um_entityId = ugr_userId r,
                um_entityId_relation = ugr_groupId r \<rparr>)"

text \<open>
  The three hooks reload the entity and insert the message into the table of update
  messages. An exception of a hook rejects the operation that triggered it, so the
  hook returns either the exception or the store with the message appended.
\<close>

definition afterInsert :: "UserGroupRelation \<Rightarrow> GroupStore \<Rightarrow> error + GroupStore" where
  "afterInsert entity s =
     (case createMessage INSERT (reloadEntityWithRequiredRelations s entity) of
        Inl e \<Rightarrow> Inl e
      | Inr m \<Rightarrow> Inr (s\<lparr> updateMessages := updateMessages s @ [m] \<rparr>))"

definition afterUpdate :: "UserGroupRelation \<Rightarrow> GroupStore \<Rightarrow> error + GroupStore" where
  "afterUpdate entity s =
     (case createMessage UPDATE (reloadEntityWithRequiredRelations s entity) of
        Inl e \<Rightarrow> Inl e
      | Inr m \<Rightarrow> Inr (s\<lparr> updateMessages := updateMessages s @ [m] \<rparr>))"

definition afterRemove :: "UserGroupRelation \<Rightarrow> GroupStore \<Rightarrow> error + GroupStore" where
  "afterRemove entity s =
     (case createMessage REMOVE (reloadEntityWithRequiredRelations s entity) of
        Inl e \<Rightarrow> Inl e
      | Inr m \<Rightarrow> Inr (s\<lparr> updateMessages := updateMessages s @ [m] \<rparr>))"

text \<open>
  The entity manager's operations on a membership, which drive the hooks: each runs its
  statement and then the hook of the subscriber, in one transaction (an exception leaves
  the store as it was). The constraints declared on the entity are not part of the
  sources: \<open>chk row s\<close> is the error code with which the database rejects the INSERT of
  \<open>row\<close> into \<open>s\<close>, if it does.
\<close>

definition insertUserGroupRelation ::
  "(UserGroupRelation \<Rightarrow> GroupStore \<Rightarrow> string option) \<Rightarrow> string \<Rightarrow> string \<Rightarrow> nat
     \<Rightarrow> GroupStore \<Rightarrow> error + GroupStore" where
  "insertUserGroupRelation chk groupId userId participantId s =
     (let entity = \<lparr> ugr_id = nextRelationId s, ugr_userId = userId, ugr_groupId = groupId,
                      ugr_participantId = participantId \<rparr>
      in case chk entity s of
           Some code \<Rightarrow> Inl (QueryFailedError code)
         | None \<Rightarrow>
             afterInsert entity
               (s\<lparr> userGroupRelations := userGroupRelations s @ [entity],
                   nextRelationId := Suc (nextRelationId s) \<rparr>))"

definition updateUserGroupRelation :: "UserGroupRelation \<Rightarrow> GroupStore \<Rightarrow> error + GroupStore" where
  "updateUserGroupRelation entity s =
     afterUpdate entity
       (s\<lparr> userGroupRelations :=
             map (\<lambda>r. if ugr_id r = ugr_id entity then entity else r) (userGroupRelations s) \<rparr>)"

definition removeUserGroupRelation :: "UserGroupRelation \<Rightarrow> GroupStore \<Rightarrow> error + GroupStore" where
  "removeUserGroupRelation entity s =
     afterRemove entity
       (s\<lparr> userGroupRelations :=
             filter (\<lambda>r. ugr_id r \<noteq> ugr_id entity) (userGroupRelations s) \<rparr>)"

subsection \<open>Joining a group\<close>

text \<open>
  Modelled from the spec: \<open>ParticipantRepository.getParticipant\<close> is not part of the
  sources. It looks up the participant of a user in a course and fails with NotFound
  when there is none.
\<close>

definition getParticipant :: "string \<Rightarrow> string \<Rightarrow> GroupStore \<Rightarrow> error + Participant" where
  "getParticipant courseId userId s =
     (case find (\<lambda>p. p_courseId p = courseId \<and> p_userId p = userId) (participants s) of
        None \<Rightarrow> Inl EntityNotFoundError
      | Some p \<Rightarrow> Inr p)"

text \<open>
  \<open>addUserToGroup\<close>: the \<open>catch\<close> handler turns the error code 23505 into a
  \<open>ConflictException\<close> and returns normally for every other error; the function then
  returns \<open>true\<close>, the relation object being truthy.
\<close>

definition addUserToGroup ::
  "(UserGroupRelation \<Rightarrow> GroupStore \<Rightarrow> string option) \<Rightarrow> string \<Rightarrow> string \<Rightarrow> string
     \<Rightarrow> GroupStore \<Rightarrow> error + (bool \<times> GroupStore)" where
  "addUserToGroup chk courseId groupId userId s =
     (case getParticipant courseId userId s of
        Inl e \<Rightarrow> Inl e
      | Inr participant \<Rightarrow>
          (case insertUserGroupRelation chk groupId userId (p_id participant) s of
             Inr s' \<Rightarrow> Inr (True, s')
           | Inl (QueryFailedError code) \<Rightarrow>
               if code = ''23505''
               then Inl (ConflictException ''This user is already a member of this group.'')
               else Inr (True, s)
           | Inl other \<Rightarrow> Inr (True, s)))"

text \<open>
  Modelled from the spec: the operation \<open>join\<close> of the membership manager. The service
  that guards \<open>addUserToGroup\<close> is not part of the sources; by the spec, \<open>join\<close> fails with
  NotFound when the group does not exist and with Conflict when the group is closed, and
  otherwise adds the membership.
\<close>

definition join ::
  "(UserGroupRelation \<Rightarrow> GroupStore \<Rightarrow> string option) \<Rightarrow> string \<Rightarrow> string \<Rightarrow> string
     \<Rightarrow> GroupStore \<Rightarrow> error + (bool \<times> GroupStore)" where
  "join chk courseId groupId userId s =
     (case getGroupById groupId s of
        Inl e \<Rightarrow> Inl e
      | Inr g \<Rightarrow>
          if g_isClosed g then Inl (ConflictException ''The group is closed.'')
          else addUserToGroup chk courseId groupId userId s)"

text \<open>
  A unique index on the pair of group and user, and foreign keys to the group and the
  participant, as one instance of the constraints: 23505 is the code of a unique
  violation, 23503 the code of a foreign-key violation.
\<close>

definition membershipConstraints :: "UserGroupRelation \<Rightarrow> GroupStore \<Rightarrow> string option" where
  "membershipConstraints row s =
     (if \<exists>r \<in> set (userGroupRelations s).
           ugr_groupId r = ugr_groupId row \<and> ugr_userId r = ugr_userId row
      then Some ''23505''
      else if ugr_groupId row \<notin> g_id ` set (groups s) then Some ''23503''
      else None)"

section \<open>CourseRepository\<close>

record CourseDto =
  cd_id :: string
  cd_shortname :: string
  cd_semester :: string
  cd_title :: string
  cd_link :: "string option"
  cd_isClosed :: bool

record 'c AdmissionCriteriaDto =
  acd_criteria :: "'c list option"

record ('gs, 't, 'c) CourseConfigDto =
  ccd_password :: "string option"
  ccd_subscriptionUrl :: "string option"
  ccd_groupSettings :: 'gs
  ccd_assignmentTemplates :: "'t list option"
  ccd_admissionCriteria :: "'c AdmissionCriteriaDto option"

record ('gs, 't, 'c) CourseConfig =
  cc_password :: "string option"
  cc_subscriptionUrl :: "string option"
  cc_groupSettings :: 'gs
  cc_assignmentTemplates :: "'t list option"
  cc_admissionCriteria :: "'c AdmissionCriteriaDto option"

record ('gs, 't, 'c) Course =
  c_id :: string
  c_shortname :: string
  c_semester :: string
  c_title :: string
  c_link :: "string option"
  c_isClosed :: bool
  c_config :: "('gs, 't, 'c) CourseConfig"

text \<open>
  \<open>createInsertableEntity\<close>. The test \<open>configDto.password?.length > 0\<close> is false for a
  missing password (\<open>undefined > 0\<close>) and for the empty string; the admission criteria are
  set only when the DTO has a non-empty list of them.
\<close>

definition createInsertableEntity ::
  "CourseDto \<Rightarrow> ('gs, 't, 'c) CourseConfigDto \<Rightarrow> ('gs, 't, 'c) Course" where
  "createInsertableEntity courseDto configDto =
     \<lparr> c_id = cd_id courseDto,
       c_shortname = cd_shortname courseDto,
       c_semester = cd_semester courseDto,
       c_title = cd_title courseDto,
       c_link = cd_link courseDto,
       c_isClosed = cd_isClosed courseDto,
       c_config =
         \<lparr> cc_password =
             (case ccd_password configDto of
                None \<Rightarrow> None
              | Some p \<Rightarrow> if length p > 0 then Some p else None),
           cc_subscriptionUrl = ccd_subscriptionUrl configDto,
           cc_groupSettings = ccd_groupSettings configDto,
           cc_assignmentTemplates = ccd_assignmentTemplates configDto,
           cc_admissionCriteria =
             (case ccd_admissionCriteria configDto of
                None \<Rightarrow> None
              | Some ac \<Rightarrow>
                  (case acd_criteria ac of
                     None \<Rightarrow> None
                   | Some cs \<Rightarrow> if length cs > 0 then Some ac else None)) \<rparr> \<rparr>"

text \<open>
  \<open>deleteCourse\<close>: DELETE with the criteria \<open>{ id: courseId }\<close> on the table of courses;
  true when one row was affected.
\<close>

definition deleteCourse ::
  "string \<Rightarrow> ('gs, 't, 'c) Course list \<Rightarrow> bool \<times> ('gs, 't, 'c) Course list" where
  "deleteCourse courseId courses =
     (let affected = length (filter (\<lambda>c. c_id c = courseId) courses)
      in (affected = 1, filter (\<lambda>c. c_id c \<noteq> courseId) courses))"

section \<open>CourseUserRelationRepository\<close>

record 'role CourseUserRelation =
  cur_id :: "nat option"
  cur_courseId :: string
  cur_userId :: string
  cur_role :: 'role

record 'role CourseUserStore =
  courseUserRelations :: "'role CourseUserRelation list"
  nextCourseUserRelationId :: nat

text \<open>
  \<open>courseUserRelation.save()\<close>: the INSERT is rejected with the code \<open>chk row s\<close>, if any;
  otherwise the row is stored and the entity gets its generated identifier.
\<close>

definition saveCourseUserRelation ::
  "('role CourseUserRelation \<Rightarrow> 'role CourseUserStore \<Rightarrow> string option)
     \<Rightarrow> 'role CourseUserRelation \<Rightarrow> 'role CourseUserStore
     \<Rightarrow> error + ('role CourseUserRelation \<times> 'role CourseUserStore)" where
  "saveCourseUserRelation chk entity s =
     (case chk entity s of
        Some code \<Rightarrow> Inl (QueryFailedError code)
      | None \<Rightarrow>
          (let saved = entity\<lparr> cur_id := Some (nextCourseUserRelationId s) \<rparr>
           in Inr (saved,
                   s\<lparr> courseUserRelations := courseUserRelations s @ [saved],
                       nextCourseUserRelationId := Suc (nextCourseUserRelationId s) \<rparr>)))"

text \<open>
  \<open>addUserToCourse\<close>: as in \<open>addUserToGroup\<close>, the \<open>catch\<close> handler throws for the code
  23505 only; after any other error the function returns the entity it built.
\<close>

definition addUserToCourse ::
  "('role CourseUserRelation \<Rightarrow> 'role CourseUserStore \<Rightarrow> string option)
     \<Rightarrow> string \<Rightarrow> string \<Rightarrow> 'role \<Rightarrow> 'role CourseUserStore
     \<Rightarrow> error + ('role CourseUserRelation \<times> 'role CourseUserStore)" where
  "addUserToCourse chk courseId userId role s =
     (let courseUserRelation =
            \<lparr> cur_id = None, cur_courseId = courseId, cur_userId = userId, cur_role = role \<rparr>
      in case saveCourseUserRelation chk courseUserRelation s of
           Inr (saved, s') \<Rightarrow> Inr (saved, s')
         | Inl (QueryFailedError code) \<Rightarrow>
             if code = ''23505''
             then Inl (ConflictException ''This user is already signed up to the course.'')
             else Inr (courseUserRelation, s)
         | Inl other \<Rightarrow> Inr (courseUserRelation, s))"

text \<open>
  One instance of the constraints: a unique index on the pair of course and user, and a
  foreign key to the courses \<open>cs\<close>.
\<close>

definition courseUserConstraints ::
  "string list \<Rightarrow> 'role CourseUserRelation \<Rightarrow> 'role CourseUserStore \<Rightarrow> string option" where
  "courseUserConstraints cs row s =
     (if \<exists>r \<in> set (courseUserRelations s).
           cur_courseId r = cur_courseId row \<and> cur_userId r = cur_userId row
      then Some ''23505''
      else if cur_courseId row \<notin> set cs then Some ''23503''
      else None)"

section \<open>AssignmentRegistrationRepository\<close>

record AssignmentRegistration =
  ar_id :: nat
  ar_assignmentId :: string
  ar_groupId :: string

record GroupRegistrationRelation =
  grr_id :: nat
  grr_assignmentRegistrationId :: nat
  grr_participantId :: nat

record RegistrationStore =
  registrations :: "AssignmentRegistration list"
  groupRelations :: "GroupRegistrationRelation list"
  nextRegistrationId :: nat
  nextGroupRelationId :: nat





text \<open>
  \<open>remove(registrations)\<close> deletes the given rows; their member rows go with them (the
  registration of a group stands for the registrations of all its members).
\<close>

definition removeRows :: "AssignmentRegistration list \<Rightarrow> RegistrationStore \<Rightarrow> RegistrationStore" where
  "removeRows rs s =
     s\<lparr> registrations := filter (\<lambda>r. ar_id r \<notin> ar_id ` set rs) (registrations s),
        groupRelations :=
          filter (\<lambda>m. grr_assignmentRegistrationId m \<notin> ar_id ` set rs) (groupRelations s) \<rparr>"

text \<open>
  \<open>removeRegistrationForUser\<close>: \<open>findOneOrFail\<close> with the criteria
  \<open>{ assignmentId, userId }\<close>, then \<open>!!(await this.remove(registration))\<close>, which is \<open>true\<close>.
  How the column \<open>userId\<close> of the criteria relates a registration to a user is declared
  on the entity, which is not part of the sources: it is the parameter \<open>ofUser\<close>.
\<close>

definition removeRegistrationForUser ::
  "(AssignmentRegistration \<Rightarrow> string \<Rightarrow> bool) \<Rightarrow> string \<Rightarrow> string \<Rightarrow> RegistrationStore
     \<Rightarrow> error + (bool \<times> RegistrationStore)" where
  "removeRegistrationForUser ofUser assignmentId userId s =
     (case find (\<lambda>r. ar_assignmentId r = assignmentId \<and> ofUser r userId) (registrations s) of
        None \<Rightarrow> Inl EntityNotFoundError
      | Some registration \<Rightarrow> Inr (True, removeRows [registration] s))"

definition removeRegistrationForGroup ::
  "string \<Rightarrow> string \<Rightarrow> RegistrationStore \<Rightarrow> bool \<times> RegistrationStore" where
  "removeRegistrationForGroup assignmentId groupId s =
     (let rs = filter (\<lambda>r. ar_assignmentId r = assignmentId \<and> ar_groupId r = groupId)
                 (registrations s)
      in if length rs = 0 then (False, s) else (True, removeRows rs s))"

text \<open>\<open>removeRegistrations\<close>: DELETE with the criteria \<open>{ assignmentId }\<close>; returns nothing.\<close>

definition removeRegistrations :: "string \<Rightarrow> RegistrationStore \<Rightarrow> unit \<times> RegistrationStore" where
  "removeRegistrations assignmentId s =
     ((), removeRows (filter (\<lambda>r. ar_assignmentId r = assignmentId) (registrations s)) s)"



text \<open>
  The registrations of a group for an assignment, and the participants of their member
  rows, in the order of the rows.
\<close>

definition registrationsOf ::
  "string \<Rightarrow> string \<Rightarrow> RegistrationStore \<Rightarrow> AssignmentRegistration list" where
  "registrationsOf assignmentId groupId s =
     filter (\<lambda>r. ar_assignmentId r = assignmentId \<and> ar_groupId r = groupId) (registrations s)"



text \<open>
  One instance of the user criteria: the registration has a member row whose
  participant is a participant of the user, by the pairs \<open>us\<close> of participant and user.
\<close>

definition hasMemberOfUser ::
  "(nat \<times> string) list \<Rightarrow> RegistrationStore \<Rightarrow> AssignmentRegistration \<Rightarrow> string \<Rightarrow> bool" where
  "hasMemberOfUser us s r userId =
     list_ex (\<lambda>m. grr_assignmentRegistrationId m = ar_id r
                   \<and> (grr_participantId m, userId) \<in> set us)
       (groupRelations s)"

section \<open>Helper facts on lists\<close>


lemma filter_neg_length:
  "length xs - length (filter (\<lambda>x. \<not> P x) xs) = length (filter P xs)"
  using sum_length_filter_compl [of P xs] by simp

section \<open>Passwords of created entities\<close>

text \<open>
  C10. A group entity and a course configuration built from a creation DTO have the
  password \<open>null\<close> when the DTO has no password or the empty one, and the DTO's password
  otherwise; in no case is the stored password the empty string.
\<close>

theorem created_password_never_empty:
  "ge_password (createEntityFromDto groupDto) =
     (if gd_password groupDto = None \<or> gd_password groupDto = Some [] then None
      else gd_password groupDto)
   \<and> ge_password (createEntityFromDto groupDto) \<noteq> Some []
   \<and> cc_password (c_config (createInsertableEntity courseDto configDto)) =
     (if ccd_password configDto = None \<or> ccd_password configDto = Some [] then None
      else ccd_password configDto)
   \<and> cc_password (c_config (createInsertableEntity courseDto configDto)) \<noteq> Some []"
  by (simp add: createEntityFromDto_def createInsertableEntity_def split: option.split)

theorem created_password_never_empty_witness:
  "ge_password (createEntityFromDto \<lparr> gd_name = ''Team1'', gd_password = Some [], gd_isClosed = None \<rparr>) = None
   \<and> cc_password (c_config (createInsertableEntity
        \<lparr> cd_id = ''java'', cd_shortname = ''java'', cd_semester = ''wise1920'', cd_title = ''Java'',
          cd_link = None, cd_isClosed = False \<rparr>
        \<lparr> ccd_password = Some [], ccd_subscriptionUrl = None, ccd_groupSettings = (),
          ccd_assignmentTemplates = (None :: unit list option),
          ccd_admissionCriteria = (None :: unit AdmissionCriteriaDto option) \<rparr>)) = None"
  using created_password_never_empty
    [of "\<lparr> gd_name = ''Team1'', gd_password = Some [], gd_isClosed = None \<rparr>"
        "\<lparr> cd_id = ''java'', cd_shortname = ''java'', cd_semester = ''wise1920'', cd_title = ''Java'',
          cd_link = None, cd_isClosed = False \<rparr>"
        "\<lparr> ccd_password = Some [], ccd_subscriptionUrl = None, ccd_groupSettings = (),
          ccd_assignmentTemplates = (None :: unit list option),
          ccd_admissionCriteria = (None :: unit AdmissionCriteriaDto option) \<rparr>"]
  by simp

section \<open>Deleting a group or a course\<close>

text \<open>
  C9. \<open>deleteCourse\<close> and \<open>deleteGroup\<close> return true exactly when one row was deleted,
  that is when the table is one row shorter afterwards. For an identifier that no row
  has they return false and leave the table as it is; neither has a path that throws.
\<close>

theorem delete_true_iff_one_row:
  "fst (deleteCourse courseId courses)
     = (length courses - length (snd (deleteCourse courseId courses)) = 1)
   \<and> fst (deleteGroup groupId s)
     = (length (groups s) - length (groups (snd (deleteGroup groupId s))) = 1)
   \<and> (courseId \<notin> c_id ` set courses \<longrightarrow> deleteCourse courseId courses = (False, courses))
   \<and> (groupId \<notin> g_id ` set (groups s) \<longrightarrow> deleteGroup groupId s = (False, s))"
proof -
  have a: "fst (deleteCourse courseId courses)
     = (length courses - length (snd (deleteCourse courseId courses)) = 1)"
    using filter_neg_length [of courses "\<lambda>c. c_id c = courseId"]
    by (simp add: deleteCourse_def)
  have b: "fst (deleteGroup groupId s)
     = (length (groups s) - length (groups (snd (deleteGroup groupId s))) = 1)"
    using filter_neg_length [of "groups s" "\<lambda>g. g_id g = groupId"]
    by (simp add: deleteGroup_def)
  have c: "courseId \<notin> c_id ` set courses \<Longrightarrow> deleteCourse courseId courses = (False, courses)"
  proof -
    assume n: "courseId \<notin> c_id ` set courses"
    then have "filter (\<lambda>c. c_id c = courseId) courses = []"
      by (auto simp: filter_empty_conv)
    moreover from n have "filter (\<lambda>c. c_id c \<noteq> courseId) courses = courses"
      by (auto simp: filter_id_conv)
    ultimately show ?thesis by (simp add: deleteCourse_def)
  qed
  have d: "groupId \<notin> g_id ` set (groups s) \<Longrightarrow> deleteGroup groupId s = (False, s)"
  proof -
    assume n: "groupId \<notin> g_id ` set (groups s)"
    then have "filter (\<lambda>g. g_id g = groupId) (groups s) = []"
      by (auto simp: filter_empty_conv)
    moreover from n have "filter (\<lambda>g. g_id g \<noteq> groupId) (groups s) = groups s"
      by (auto simp: filter_id_conv)
    ultimately show ?thesis by (simp add: deleteGroup_def)
  qed
  from a b c d show ?thesis by simp
qed

theorem delete_true_iff_one_row_witness:
  "''python'' \<notin> c_id ` set [createInsertableEntity
        \<lparr> cd_id = ''java'', cd_shortname = ''java'', cd_semester = ''wise1920'', cd_title = ''Java'',
          cd_link = None, cd_isClosed = False \<rparr>
        \<lparr> ccd_password = None, ccd_subscriptionUrl = None, ccd_groupSettings = (),
          ccd_assignmentTemplates = (None :: unit list option),
          ccd_admissionCriteria = (None :: unit AdmissionCriteriaDto option) \<rparr>]
   \<and> fst (deleteCourse ''python'' [createInsertableEntity
        \<lparr> cd_id = ''java'', cd_shortname = ''java'', cd_semester = ''wise1920'', cd_title = ''Java'',
          cd_link = None, cd_isClosed = False \<rparr>
        \<lparr> ccd_password = None, ccd_subscriptionUrl = None, ccd_groupSettings = (),
          ccd_assignmentTemplates = (None :: unit list option),
          ccd_admissionCriteria = (None :: unit AdmissionCriteriaDto option) \<rparr>]) = False
   \<and> ''Team2'' \<notin> g_id ` set (groups \<lparr> groups = numberedGroups ''java'' ''Team'' 1,
          userGroupRelations = [], participants = [], updateMessages = [], nextRelationId = 0 \<rparr>)
   \<and> deleteGroup ''Team2'' \<lparr> groups = numberedGroups ''java'' ''Team'' 1,
          userGroupRelations = [], participants = [], updateMessages = [], nextRelationId = 0 \<rparr>
       = (False, \<lparr> groups = numberedGroups ''java'' ''Team'' 1,
          userGroupRelations = [], participants = [], updateMessages = [], nextRelationId = 0 \<rparr>)"
proof -
  let ?cs = "[createInsertableEntity
        \<lparr> cd_id = ''java'', cd_shortname = ''java'', cd_semester = ''wise1920'', cd_title = ''Java'',
          cd_link = None, cd_isClosed = False \<rparr>
        \<lparr> ccd_password = None, ccd_subscriptionUrl = None, ccd_groupSettings = (),
          ccd_assignmentTemplates = (None :: unit list option),
          ccd_admissionCriteria = (None :: unit AdmissionCriteriaDto option) \<rparr>]"
  let ?s = "\<lparr> groups = numberedGroups ''java'' ''Team'' 1,
          userGroupRelations = [], participants = [], updateMessages = [], nextRelationId = 0 \<rparr>"
  have h1: "''python'' \<notin> c_id ` set ?cs"
    by (simp add: createInsertableEntity_def)
  have h2: "''Team2'' \<notin> g_id ` set (groups ?s)"
    by (simp add: numberedGroups_def numberedGroup_def toString.simps)
  from h1 h2 delete_true_iff_one_row [of "''python''" ?cs "''Team2''" ?s]
  show ?thesis by simp
qed

section \<open>Updating a group\<close>

text \<open>
  C6. For a group that exists, \<open>updateGroup\<close> applies the fields the update has and keeps
  the others: the empty string as password clears the password, a missing password
  leaves it, a missing name or isClosed keeps the previous value; identifier, course and
  creation date stay, the row of the group is replaced by the updated group, and the
  other tables are untouched.
\<close>

theorem updateGroup_applies_present_fields:
  assumes "getGroupById groupId s = Inr grp"
  shows "case updateGroup groupId update s of
           Inl e \<Rightarrow> False
         | Inr (g', s') \<Rightarrow>
             g_password g' =
               (case gu_password update of
                  None \<Rightarrow> g_password grp
                | Some p \<Rightarrow> if p = [] then None else Some p)
           \<and> g_name g' = (case gu_name update of None \<Rightarrow> g_name grp | Some n \<Rightarrow> n)
           \<and> g_isClosed g' = (case gu_isClosed update of None \<Rightarrow> g_isClosed grp | Some c \<Rightarrow> c)
           \<and> g_id g' = g_id grp \<and> g_courseId g' = g_courseId grp
           \<and> g_createdAt g' = g_createdAt grp
           \<and> groups s' = map (\<lambda>x. if g_id x = g_id grp then g' else x) (groups s)
           \<and> userGroupRelations s' = userGroupRelations s
           \<and> participants s' = participants s
           \<and> updateMessages s' = updateMessages s"
  using assms
  by (simp add: updateGroup_def saveGroup_def Let_def split: option.split)

theorem updateGroup_applies_present_fields_witness:
  "getGroupById ''Team1'' \<lparr> groups = numberedGroups ''java'' ''Team'' 1,
          userGroupRelations = [], participants = [], updateMessages = [], nextRelationId = 0 \<rparr>
     = Inr (numberedGroup ''java'' ''Team'' 1)
   \<and> (case updateGroup ''Team1'' \<lparr> gu_name = None, gu_password = Some [], gu_isClosed = Some True \<rparr>
           \<lparr> groups = numberedGroups ''java'' ''Team'' 1,
             userGroupRelations = [], participants = [], updateMessages = [], nextRelationId = 0 \<rparr> of
         Inl e \<Rightarrow> False
       | Inr (g', s') \<Rightarrow> g_password g' = None \<and> g_name g' = ''Team1'' \<and> g_isClosed g' = True)"
proof -
  let ?s = "\<lparr> groups = numberedGroups ''java'' ''Team'' 1,
          userGroupRelations = [], participants = [], updateMessages = [], nextRelationId = 0 \<rparr>"
  have h: "getGroupById ''Team1'' ?s = Inr (numberedGroup ''java'' ''Team'' 1)"
    by (simp add: getGroupById_def numberedGroups_def numberedGroup_def toString.simps)
  from updateGroup_applies_present_fields
    [OF h, of "\<lparr> gu_name = None, gu_password = Some [], gu_isClosed = Some True \<rparr>"]
  have "case updateGroup ''Team1'' \<lparr> gu_name = None, gu_password = Some [], gu_isClosed = Some True \<rparr> ?s of
         Inl e \<Rightarrow> False
       | Inr (g', s') \<Rightarrow> g_password g' = None \<and> g_name g' = ''Team1'' \<and> g_isClosed g' = True"
    by (auto simp: numberedGroup_def toString.simps split: sum.splits)
  with h show ?thesis by simp
qed

section \<open>Leaving a group\<close>




section \<open>Generating a group name\<close>

lemma find_name_None:
  "(find (\<lambda>g. g_name g = n) gs = None) = (n \<notin> g_name ` set gs)"
  by (auto simp: find_None_iff)

lemma loop_found:
  "i \<le> N \<Longrightarrow> N \<le> 9999
   \<Longrightarrow> \<forall>M. i \<le> M \<and> M < N \<longrightarrow> schema @ toString M \<in> g_name ` set gs
   \<Longrightarrow> schema @ toString N \<notin> g_name ` set gs
   \<Longrightarrow> tryFindAvailableName_loop i gs schema = Inr (schema @ toString N)"
proof (induction "N - i" arbitrary: i)
  case 0
  then have "i = N" by simp
  with 0 show ?case
    by (subst tryFindAvailableName_loop.simps) (simp add: find_name_None)
next
  case (Suc d)
  then have lt: "i < N" by simp
  with Suc.prems have taken: "schema @ toString i \<in> g_name ` set gs" by simp
  have "tryFindAvailableName_loop (Suc i) gs schema = Inr (schema @ toString N)"
  proof (rule Suc.hyps(1))
    show "d = N - Suc i" using Suc.hyps(2) by simp
    show "Suc i \<le> N" using lt by simp
    show "N \<le> 9999" by (rule Suc.prems(2))
    show "\<forall>M. Suc i \<le> M \<and> M < N \<longrightarrow> schema @ toString M \<in> g_name ` set gs"
      using Suc.prems(3) by simp
    show "schema @ toString N \<notin> g_name ` set gs" by (rule Suc.prems(4))
  qed
  moreover have "i \<le> 9999" using lt Suc.prems(2) by simp
  ultimately show ?case
    using taken
    by (subst tryFindAvailableName_loop.simps) (simp add: find_name_None)
qed

lemma loop_exhausted:
  "\<forall>M. i \<le> M \<and> M \<le> 9999 \<longrightarrow> schema @ toString M \<in> g_name ` set gs
   \<Longrightarrow> tryFindAvailableName_loop i gs schema = Inl (Error ''No available group name.'')"
proof (induction "10000 - i" arbitrary: i)
  case 0
  then have "\<not> i \<le> 9999" by simp
  then show ?case
    by (subst tryFindAvailableName_loop.simps) simp
next
  case (Suc d)
  then have le: "i \<le> 9999" by simp
  with Suc.prems have taken: "schema @ toString i \<in> g_name ` set gs" by simp
  have "tryFindAvailableName_loop (Suc i) gs schema = Inl (Error ''No available group name.'')"
  proof (rule Suc.hyps(1))
    show "d = 10000 - Suc i" using Suc.hyps(2) by simp
    show "\<forall>M. Suc i \<le> M \<and> M \<le> 9999 \<longrightarrow> schema @ toString M \<in> g_name ` set gs"
      using Suc.prems by simp
  qed
  then show ?case
    using taken le
    by (subst tryFindAvailableName_loop.simps) (simp add: find_name_None)
qed

lemma loaded_names:
  assumes "\<forall>n. ilike (''%'' @ schema @ ''%'') (schema @ toString n)"
  shows "(schema @ toString M \<in> g_name ` set (loadedGroups ilike courseId schema s))
         = nameTaken courseId s (schema @ toString M)"
proof
  assume "schema @ toString M \<in> g_name ` set (loadedGroups ilike courseId schema s)"
  then obtain g where "g \<in> set (groups s)" "g_courseId g = courseId" "g_name g = schema @ toString M"
    by (auto simp: loadedGroups_def)
  then show "nameTaken courseId s (schema @ toString M)"
    unfolding nameTaken_def list_ex_iff by blast
next
  assume "nameTaken courseId s (schema @ toString M)"
  then obtain g where g: "g \<in> set (groups s)" "g_courseId g = courseId" "g_name g = schema @ toString M"
    unfolding nameTaken_def list_ex_iff by blast
  from assms g(3) have "ilike (''%'' @ schema @ ''%'') (g_name g)" by simp
  with g have "g \<in> set (loadedGroups ilike courseId schema s)"
    by (simp add: loadedGroups_def)
  with g(3) show "schema @ toString M \<in> g_name ` set (loadedGroups ilike courseId schema s)"
    by (metis imageI)
qed

lemma getAvailable_loop:
  "getAvailableGroupNameForSchema ilike courseId schema s
     = tryFindAvailableName_loop 1 (loadedGroups ilike courseId schema s) schema"
  by (simp add: getAvailableGroupNameForSchema_def tryFindAvailableName_def)

lemma getAvailable_exhausted:
  assumes "\<forall>n. ilike (''%'' @ schema @ ''%'') (schema @ toString n)"
    and "\<forall>M. 1 \<le> M \<and> M \<le> 9999 \<longrightarrow> nameTaken courseId s (schema @ toString M)"
  shows "getAvailableGroupNameForSchema ilike courseId schema s
           = Inl (Error ''No available group name.'')"
proof -
  have "\<forall>M. 1 \<le> M \<and> M \<le> 9999
          \<longrightarrow> schema @ toString M \<in> g_name ` set (loadedGroups ilike courseId schema s)"
    using assms(2) loaded_names [where ilike=ilike and schema=schema, OF assms(1)] by blast
  then show ?thesis
    unfolding getAvailable_loop by (rule loop_exhausted)
qed

lemma getAvailable_found:
  assumes "\<forall>n. ilike (''%'' @ schema @ ''%'') (schema @ toString n)"
    and "1 \<le> N" and "N \<le> 9999"
    and "\<not> nameTaken courseId s (schema @ toString N)"
    and "\<forall>M. 1 \<le> M \<and> M < N \<longrightarrow> nameTaken courseId s (schema @ toString M)"
  shows "getAvailableGroupNameForSchema ilike courseId schema s = Inr (schema @ toString N)"
proof -
  have a: "\<forall>M. 1 \<le> M \<and> M < N
          \<longrightarrow> schema @ toString M \<in> g_name ` set (loadedGroups ilike courseId schema s)"
    using assms(5) loaded_names [where ilike=ilike and schema=schema, OF assms(1)] by blast
  have b: "schema @ toString N \<notin> g_name ` set (loadedGroups ilike courseId schema s)"
    using assms(4) loaded_names [where ilike=ilike and schema=schema, OF assms(1)] by blast
  show ?thesis
    unfolding getAvailable_loop using assms(2,3) a b by (rule loop_found)
qed

lemma ilikeContains_schema: "ilikeContains (''%'' @ schema @ ''%'') (schema @ x)"
  by (simp add: ilikeContains_def butlast_append)


lemma numbered_taken:
  assumes "groups s = numberedGroups courseId schema n" and "1 \<le> M" and "M \<le> n"
  shows "nameTaken courseId s (schema @ toString M)"
proof -
  have "M \<in> set [1..<Suc n]" using assms(2,3) by auto
  then have "numberedGroup courseId schema M \<in> set (groups s)"
    unfolding assms(1) numberedGroups_def by (metis imageI set_map)
  moreover have "g_courseId (numberedGroup courseId schema M) = courseId"
    and "g_name (numberedGroup courseId schema M) = schema @ toString M"
    by (simp_all add: numberedGroup_def)
  ultimately show ?thesis
    unfolding nameTaken_def list_ex_iff by blast
qed

text \<open>
  C4, as the code has it. When the database matches every candidate \<open>schema + N\<close> against
  the pattern \<open>%schema%\<close>, \<open>getAvailableGroupNameForSchema\<close> returns \<open>schema + N\<close> for the
  smallest \<open>N\<close> from 1 to 9999 whose candidate is not the name of a group of the course,
  and throws the plain \<open>Error("No available group name.")\<close> when all 9999 candidates are
  taken.
\<close>

theorem available_name_smallest_unused:
  assumes "\<forall>n. ilike (''%'' @ schema @ ''%'') (schema @ toString n)"
  shows "getAvailableGroupNameForSchema ilike courseId schema s =
     (if \<exists>N. 1 \<le> N \<and> N \<le> 9999 \<and> \<not> nameTaken courseId s (schema @ toString N)
      then Inr (schema @ toString
                  (LEAST N. 1 \<le> N \<and> \<not> nameTaken courseId s (schema @ toString N)))
      else Inl (Error ''No available group name.''))"
proof (cases "\<exists>N. 1 \<le> N \<and> N \<le> 9999 \<and> \<not> nameTaken courseId s (schema @ toString N)")
  case True
  then obtain N where N: "1 \<le> N" "N \<le> 9999" "\<not> nameTaken courseId s (schema @ toString N)"
    by blast
  let ?P = "\<lambda>N. 1 \<le> N \<and> \<not> nameTaken courseId s (schema @ toString N)"
  let ?L = "LEAST N. ?P N"
  have PN: "?P N" using N by simp
  have PL: "?P ?L" using PN by (rule LeastI)
  have "?L \<le> N" using PN by (rule Least_le)
  then have L9: "?L \<le> 9999" using N(2) by simp
  have below: "\<forall>M. 1 \<le> M \<and> M < ?L \<longrightarrow> nameTaken courseId s (schema @ toString M)"
    using not_less_Least [of _ ?P] by blast
  have "getAvailableGroupNameForSchema ilike courseId schema s = Inr (schema @ toString ?L)"
    using assms PL L9 below by (intro getAvailable_found) blast+
  with True show ?thesis by simp
next
  case False
  then have "\<forall>M. 1 \<le> M \<and> M \<le> 9999 \<longrightarrow> nameTaken courseId s (schema @ toString M)"
    by blast
  with assms have "getAvailableGroupNameForSchema ilike courseId schema s
           = Inl (Error ''No available group name.'')"
    by (rule getAvailable_exhausted)
  with False show ?thesis by simp
qed

theorem available_name_smallest_unused_witness:
  "(\<forall>n. ilikeContains (''%'' @ ''Team'' @ ''%'') (''Team'' @ toString n))
   \<and> getAvailableGroupNameForSchema ilikeContains ''java'' ''Team''
        \<lparr> groups = numberedGroups ''java'' ''Team'' 1,
          userGroupRelations = [], participants = [], updateMessages = [], nextRelationId = 0 \<rparr>
       = Inr ''Team2''"
proof -
  let ?s = "\<lparr> groups = numberedGroups ''java'' ''Team'' 1,
          userGroupRelations = [], participants = [], updateMessages = [], nextRelationId = 0 \<rparr>"
  let ?P = "\<lambda>N. 1 \<le> N \<and> \<not> nameTaken ''java'' ?s (''Team'' @ toString N)"
  have h: "\<forall>n. ilikeContains (''%'' @ ''Team'' @ ''%'') (''Team'' @ toString n)"
    using ilikeContains_schema [of "''Team''"] by blast
  have t1: "nameTaken ''java'' ?s (''Team'' @ toString 1)"
    by (rule numbered_taken [where n = 1]) simp_all
  have p2: "?P 2"
    by (simp add: nameTaken_def numberedGroups_def numberedGroup_def toString.simps)
  have least: "(LEAST N. ?P N) = 2"
  proof (rule Least_equality)
    show "?P 2" by (rule p2)
  next
    fix y assume y: "?P y"
    then have "y \<noteq> 1" using t1 by auto
    with y show "2 \<le> y" by simp
  qed
  have ex: "\<exists>N. 1 \<le> N \<and> N \<le> 9999 \<and> \<not> nameTaken ''java'' ?s (''Team'' @ toString N)"
    using p2 by (intro exI [of _ 2]) simp
  have "getAvailableGroupNameForSchema ilikeContains ''java'' ''Team'' ?s
          = Inr (''Team'' @ toString 2)"
    using available_name_smallest_unused
            [where ilike = ilikeContains and schema = "''Team''" and courseId = "''java''"
               and s = ?s, OF h] ex least
    by simp
  then have "getAvailableGroupNameForSchema ilikeContains ''java'' ''Team'' ?s = Inr ''Team2''"
    by (simp add: toString.simps)
  with h show ?thesis by blast
qed

text \<open>
  C4 as stated fails at the error: with the names \<open>Team1\<close> to \<open>Team9999\<close> taken, the error
  thrown is the plain \<open>Error\<close> with the message \<open>No available group name.\<close>, which does not
  report the bound 9999.
\<close>

theorem available_name_error_counterexample:
  "getAvailableGroupNameForSchema ilikeContains ''java'' ''Team''
        \<lparr> groups = numberedGroups ''java'' ''Team'' 9999,
          userGroupRelations = [], participants = [], updateMessages = [], nextRelationId = 0 \<rparr>
       = Inl (Error ''No available group name.'')
   \<and> \<not> sublist ''9999'' ''No available group name.''"
proof -
  let ?s = "\<lparr> groups = numberedGroups ''java'' ''Team'' 9999,
          userGroupRelations = [], participants = [], updateMessages = [], nextRelationId = 0 \<rparr>"
  have h: "\<forall>n. ilikeContains (''%'' @ ''Team'' @ ''%'') (''Team'' @ toString n)"
    using ilikeContains_schema [of "''Team''"] by blast
  have "\<forall>M. 1 \<le> M \<and> M \<le> 9999 \<longrightarrow> nameTaken ''java'' ?s (''Team'' @ toString M)"
    using numbered_taken [of ?s "''java''" "''Team''" 9999] by simp
  with h have "getAvailableGroupNameForSchema ilikeContains ''java'' ''Team'' ?s
       = Inl (Error ''No available group name.'')"
    by (rule getAvailable_exhausted [where ilike = ilikeContains and schema = "''Team''"])
  moreover have "\<not> sublist ''9999'' ''No available group name.''"
    by code_simp
  ultimately show ?thesis by simp
qed

section \<open>Joining a group\<close>

lemma addUserToGroup_rejected:
  assumes "getParticipant courseId userId s = Inr p"
    and "chk \<lparr> ugr_id = nextRelationId s, ugr_userId = userId, ugr_groupId = groupId,
                ugr_participantId = p_id p \<rparr> s = Some code"
  shows "addUserToGroup chk courseId groupId userId s =
           (if code = ''23505''
            then Inl (ConflictException ''This user is already a member of this group.'')
            else Inr (True, s))"
  using assms by (simp add: addUserToGroup_def insertUserGroupRelation_def)

text \<open>
  C2. For a group and a participant that exist, and a database that rejects a second row
  for a pair of group and user with the code 23505: \<open>join\<close> fails with a Conflict when
  the pair is a member already or the group is closed, and the Conflict that
  \<open>addUserToGroup\<close> throws for the duplicate says that the user is already a member.
\<close>

theorem join_conflict:
  assumes "getGroupById groupId s = Inr g"
    and "getParticipant courseId userId s = Inr p"
    and "\<forall>row. (\<exists>r \<in> set (userGroupRelations s).
                   ugr_groupId r = ugr_groupId row \<and> ugr_userId r = ugr_userId row)
               \<longrightarrow> chk row s = Some ''23505''"
  shows "((\<exists>r \<in> set (userGroupRelations s). ugr_groupId r = groupId \<and> ugr_userId r = userId)
            \<or> g_isClosed g
          \<longrightarrow> isConflict (join chk courseId groupId userId s))
       \<and> ((\<exists>r \<in> set (userGroupRelations s). ugr_groupId r = groupId \<and> ugr_userId r = userId)
          \<longrightarrow> addUserToGroup chk courseId groupId userId s
                = Inl (ConflictException ''This user is already a member of this group.'')
              \<and> sublist ''already a member'' ''This user is already a member of this group.'')
       \<and> ((\<exists>r \<in> set (userGroupRelations s). ugr_groupId r = groupId \<and> ugr_userId r = userId)
            \<and> \<not> g_isClosed g
          \<longrightarrow> join chk courseId groupId userId s
                = Inl (ConflictException ''This user is already a member of this group.''))"
proof -
  let ?dup = "\<exists>r \<in> set (userGroupRelations s). ugr_groupId r = groupId \<and> ugr_userId r = userId"
  let ?msg = "''This user is already a member of this group.''"
  have sub: "sublist ''already a member'' ?msg" by code_simp
  have dup: "addUserToGroup chk courseId groupId userId s = Inl (ConflictException ?msg)" if d: ?dup
  proof -
    have "chk \<lparr> ugr_id = nextRelationId s, ugr_userId = userId, ugr_groupId = groupId,
                  ugr_participantId = p_id p \<rparr> s = Some ''23505''"
      using assms(3) d by simp
    with assms(2) show ?thesis by (simp add: addUserToGroup_rejected)
  qed
  have closed: "isConflict (join chk courseId groupId userId s)" if "g_isClosed g"
    using assms(1) that by (simp add: join_def)
  have opn: "join chk courseId groupId userId s = addUserToGroup chk courseId groupId userId s"
    if "\<not> g_isClosed g"
    using assms(1) that by (simp add: join_def)
  have a: "isConflict (join chk courseId groupId userId s)" if "?dup \<or> g_isClosed g"
  proof (cases "g_isClosed g")
    case True
    then show ?thesis by (rule closed)
  next
    case False
    with that have ?dup by simp
    then show ?thesis using opn [OF False] dup by simp
  qed
  from a dup opn sub show ?thesis by simp
qed

theorem join_conflict_witness:
  "getGroupById ''Team1'' \<lparr> groups = numberedGroups ''java'' ''Team'' 1,
         userGroupRelations = [\<lparr> ugr_id = 0, ugr_userId = ''u1'', ugr_groupId = ''Team1'',
                                  ugr_participantId = 7 \<rparr>],
         participants = [\<lparr> p_id = 7, p_courseId = ''java'', p_userId = ''u1'' \<rparr>],
         updateMessages = [], nextRelationId = 1 \<rparr> = Inr (numberedGroup ''java'' ''Team'' 1)
   \<and> join membershipConstraints ''java'' ''Team1'' ''u1''
       \<lparr> groups = numberedGroups ''java'' ''Team'' 1,
         userGroupRelations = [\<lparr> ugr_id = 0, ugr_userId = ''u1'', ugr_groupId = ''Team1'',
                                  ugr_participantId = 7 \<rparr>],
         participants = [\<lparr> p_id = 7, p_courseId = ''java'', p_userId = ''u1'' \<rparr>],
         updateMessages = [], nextRelationId = 1 \<rparr>
       = Inl (ConflictException ''This user is already a member of this group.'')"
proof -
  let ?s = "\<lparr> groups = numberedGroups ''java'' ''Team'' 1,
         userGroupRelations = [\<lparr> ugr_id = 0, ugr_userId = ''u1'', ugr_groupId = ''Team1'',
                                  ugr_participantId = 7 \<rparr>],
         participants = [\<lparr> p_id = 7, p_courseId = ''java'', p_userId = ''u1'' \<rparr>],
         updateMessages = [], nextRelationId = 1 \<rparr>"
  have h1: "getGroupById ''Team1'' ?s = Inr (numberedGroup ''java'' ''Team'' 1)"
    by (simp add: getGroupById_def numberedGroups_def numberedGroup_def toString.simps)
  have h2: "getParticipant ''java'' ''u1'' ?s = Inr \<lparr> p_id = 7, p_courseId = ''java'', p_userId = ''u1'' \<rparr>"
    by (simp add: getParticipant_def)
  have h3: "\<forall>row. (\<exists>r \<in> set (userGroupRelations ?s).
                   ugr_groupId r = ugr_groupId row \<and> ugr_userId r = ugr_userId row)
               \<longrightarrow> membershipConstraints row ?s = Some ''23505''"
    by (simp add: membershipConstraints_def)
  have dup: "\<exists>r \<in> set (userGroupRelations ?s). ugr_groupId r = ''Team1'' \<and> ugr_userId r = ''u1''"
    by simp
  have opn: "\<not> g_isClosed (numberedGroup ''java'' ''Team'' 1)"
    by (simp add: numberedGroup_def)
  from join_conflict [where chk = membershipConstraints, OF h1 h2 h3] dup opn
  have "join membershipConstraints ''java'' ''Team1'' ''u1'' ?s
       = Inl (ConflictException ''This user is already a member of this group.'')"
    by blast
  with h1 show ?thesis by simp
qed

section \<open>Errors of the store\<close>

lemma addUserToCourse_rejected:
  assumes "chk \<lparr> cur_id = None, cur_courseId = courseId, cur_userId = userId, cur_role = role \<rparr> s
             = Some code"
  shows "addUserToCourse chk courseId userId role s =
           (if code = ''23505''
            then Inl (ConflictException ''This user is already signed up to the course.'')
            else Inr (\<lparr> cur_id = None, cur_courseId = courseId, cur_userId = userId,
                        cur_role = role \<rparr>, s))"
  using assms by (simp add: addUserToCourse_def saveCourseUserRelation_def)

text \<open>
  C8: every error of the store on adding a user to a course or to a group reaches the
  caller, a unique violation as a Conflict and any other error as it is. The code does
  this for the unique violation only. A foreign-key violation (code 23503: the course,
  or the group, does not exist) is rejected by the store, but the \<open>catch\<close> handler of
  \<open>addUserToCourse\<close> and of \<open>addUserToGroup\<close> returns normally for it, so the caller gets
  the relation, or \<open>true\<close>, although nothing was stored.
\<close>

theorem store_error_swallowed:
  "saveCourseUserRelation (courseUserConstraints [''java''])
       \<lparr> cur_id = None, cur_courseId = ''python'', cur_userId = ''u1'', cur_role = ''STUDENT'' \<rparr>
       \<lparr> courseUserRelations = [], nextCourseUserRelationId = 0 \<rparr>
     = Inl (QueryFailedError ''23503'')
   \<and> addUserToCourse (courseUserConstraints [''java'']) ''python'' ''u1'' ''STUDENT''
       \<lparr> courseUserRelations = [], nextCourseUserRelationId = 0 \<rparr>
     = Inr (\<lparr> cur_id = None, cur_courseId = ''python'', cur_userId = ''u1'', cur_role = ''STUDENT'' \<rparr>,
            \<lparr> courseUserRelations = [], nextCourseUserRelationId = 0 \<rparr>)
   \<and> insertUserGroupRelation membershipConstraints ''Team2'' ''u1'' 7
       \<lparr> groups = numberedGroups ''java'' ''Team'' 1, userGroupRelations = [],
         participants = [\<lparr> p_id = 7, p_courseId = ''java'', p_userId = ''u1'' \<rparr>],
         updateMessages = [], nextRelationId = 0 \<rparr>
     = Inl (QueryFailedError ''23503'')
   \<and> addUserToGroup membershipConstraints ''java'' ''Team2'' ''u1''
       \<lparr> groups = numberedGroups ''java'' ''Team'' 1, userGroupRelations = [],
         participants = [\<lparr> p_id = 7, p_courseId = ''java'', p_userId = ''u1'' \<rparr>],
         updateMessages = [], nextRelationId = 0 \<rparr>
     = Inr (True,
       \<lparr> groups = numberedGroups ''java'' ''Team'' 1, userGroupRelations = [],
         participants = [\<lparr> p_id = 7, p_courseId = ''java'', p_userId = ''u1'' \<rparr>],
         updateMessages = [], nextRelationId = 0 \<rparr>)"
  by (simp add: addUserToCourse_def saveCourseUserRelation_def courseUserConstraints_def
      addUserToGroup_def insertUserGroupRelation_def membershipConstraints_def getParticipant_def
      numberedGroups_def numberedGroup_def toString.simps)

section \<open>Change records of memberships\<close>

lemma afterRemove_of_removed_row:
  "afterRemove entity
     (s\<lparr> userGroupRelations := filter (\<lambda>r. ugr_id r \<noteq> ugr_id entity) (userGroupRelations s) \<rparr>)
   = Inl TypeError"
proof -
  have "find (\<lambda>r. ugr_id r = ugr_id entity)
          (filter (\<lambda>r. ugr_id r \<noteq> ugr_id entity) (userGroupRelations s)) = None"
    by (simp add: find_None_iff)
  then show ?thesis
    by (simp add: afterRemove_def createMessage_def reloadEntityWithRequiredRelations_def)
qed

lemma removeUserGroupRelation_fails:
  "removeUserGroupRelation entity s = Inl TypeError"
  unfolding removeUserGroupRelation_def by (rule afterRemove_of_removed_row)

lemma find_append_fresh:
  "find P xs = None \<Longrightarrow> P x \<Longrightarrow> find P (xs @ [x]) = Some x"
  by (induction xs) (auto split: if_splits)

lemma insertUserGroupRelation_writes_message:
  assumes "chk \<lparr> ugr_id = nextRelationId s, ugr_userId = userId, ugr_groupId = groupId,
                  ugr_participantId = participantId \<rparr> s = None"
    and "find (\<lambda>g. g_id g = groupId) (groups s) = Some g"
    and "find (\<lambda>r. ugr_id r = nextRelationId s) (userGroupRelations s) = None"
  shows "insertUserGroupRelation chk groupId userId participantId s =
           Inr (s\<lparr> userGroupRelations :=
                     userGroupRelations s
                       @ [\<lparr> ugr_id = nextRelationId s, ugr_userId = userId, ugr_groupId = groupId,
                            ugr_participantId = participantId \<rparr>],
                   nextRelationId := Suc (nextRelationId s),
                   updateMessages :=
                     updateMessages s
                       @ [\<lparr> um_type = INSERT, um_affectedObject = USER_GROUP_RELATION,
                            um_courseId = g_courseId g, um_entityId = userId,
                            um_entityId_relation = groupId \<rparr>] \<rparr>)"
proof -
  let ?e = "\<lparr> ugr_id = nextRelationId s, ugr_userId = userId, ugr_groupId = groupId,
                  ugr_participantId = participantId \<rparr>"
  have "find (\<lambda>r. ugr_id r = ugr_id ?e) (userGroupRelations s @ [?e]) = Some ?e"
    using assms(3) by (intro find_append_fresh) simp_all
  then show ?thesis
    using assms(1,2)
    by (simp add: insertUserGroupRelation_def afterInsert_def createMessage_def
        reloadEntityWithRequiredRelations_def)
qed

lemma find_map_replace:
  "find (\<lambda>r. f r = f e) xs = Some x
   \<Longrightarrow> find (\<lambda>r. f r = f e) (map (\<lambda>r. if f r = f e then e else r) xs) = Some e"
  by (induction xs) (auto split: if_splits)

lemma updateUserGroupRelation_writes_message:
  assumes "find (\<lambda>r. ugr_id r = ugr_id entity) (userGroupRelations s) = Some old"
    and "find (\<lambda>g. g_id g = ugr_groupId entity) (groups s) = Some g"
  shows "updateUserGroupRelation entity s =
           Inr (s\<lparr> userGroupRelations :=
                     map (\<lambda>r. if ugr_id r = ugr_id entity then entity else r)
                       (userGroupRelations s),
                   updateMessages :=
                     updateMessages s
                       @ [\<lparr> um_type = UPDATE, um_affectedObject = USER_GROUP_RELATION,
                            um_courseId = g_courseId g, um_entityId = ugr_userId entity,
                            um_entityId_relation = ugr_groupId entity \<rparr>] \<rparr>)"
  using find_map_replace [OF assms(1)] assms(2)
  by (simp add: updateUserGroupRelation_def afterUpdate_def createMessage_def
      reloadEntityWithRequiredRelations_def)

text \<open>
  C1: every insertion, update and removal of a membership writes exactly one update
  message with the matching type, course, user and group, also the removal, whose row
  is gone when the message is built. The code does not do this for the removal: the
  hook \<open>afterRemove\<close> reloads the membership after its row was deleted, gets \<open>undefined\<close>
  and throws a \<open>TypeError\<close> when it builds the message, so no REMOVE message is written.
  The insertion of the same membership does write its one INSERT message.
\<close>

theorem remove_hook_fails:
  "removeUserGroupRelation
       \<lparr> ugr_id = 0, ugr_userId = ''u1'', ugr_groupId = ''Team1'', ugr_participantId = 7 \<rparr>
       \<lparr> groups = numberedGroups ''java'' ''Team'' 1,
         userGroupRelations = [\<lparr> ugr_id = 0, ugr_userId = ''u1'', ugr_groupId = ''Team1'',
                                  ugr_participantId = 7 \<rparr>],
         participants = [\<lparr> p_id = 7, p_courseId = ''java'', p_userId = ''u1'' \<rparr>],
         updateMessages = [], nextRelationId = 1 \<rparr>
     = Inl TypeError
   \<and> afterRemove
       \<lparr> ugr_id = 0, ugr_userId = ''u1'', ugr_groupId = ''Team1'', ugr_participantId = 7 \<rparr>
       \<lparr> groups = numberedGroups ''java'' ''Team'' 1,
         userGroupRelations = [],
         participants = [\<lparr> p_id = 7, p_courseId = ''java'', p_userId = ''u1'' \<rparr>],
         updateMessages = [], nextRelationId = 1 \<rparr>
     = Inl TypeError
   \<and> insertUserGroupRelation membershipConstraints ''Team1'' ''u1'' 7
       \<lparr> groups = numberedGroups ''java'' ''Team'' 1, userGroupRelations = [],
         participants = [\<lparr> p_id = 7, p_courseId = ''java'', p_userId = ''u1'' \<rparr>],
         updateMessages = [], nextRelationId = 0 \<rparr>
     = Inr \<lparr> groups = numberedGroups ''java'' ''Team'' 1,
         userGroupRelations = [\<lparr> ugr_id = 0, ugr_userId = ''u1'', ugr_groupId = ''Team1'',
                                  ugr_participantId = 7 \<rparr>],
         participants = [\<lparr> p_id = 7, p_courseId = ''java'', p_userId = ''u1'' \<rparr>],
         updateMessages = [\<lparr> um_type = INSERT, um_affectedObject = USER_GROUP_RELATION,
                              um_courseId = ''java'', um_entityId = ''u1'',
                              um_entityId_relation = ''Team1'' \<rparr>],
         nextRelationId = 1 \<rparr>"
  by (simp add: removeUserGroupRelation_def afterRemove_def afterInsert_def createMessage_def
      reloadEntityWithRequiredRelations_def insertUserGroupRelation_def membershipConstraints_def
      numberedGroups_def numberedGroup_def toString.simps)

section \<open>Registering a group for an assignment\<close>










section \<open>Removing registrations\<close>

lemma removeRows_nil: "removeRows [] s = s"
  by (simp add: removeRows_def)

lemma removeRows_removes:
  "filter P (registrations (removeRows (filter P (registrations s)) s)) = []"
proof -
  have "\<forall>x \<in> set (registrations (removeRows (filter P (registrations s)) s)). \<not> P x"
  proof
    fix x
    assume "x \<in> set (registrations (removeRows (filter P (registrations s)) s))"
    then have x: "x \<in> set (registrations s)"
      and n: "ar_id x \<notin> ar_id ` set (filter P (registrations s))"
      by (simp_all add: removeRows_def)
    show "\<not> P x"
    proof
      assume "P x"
      with x have "x \<in> set (filter P (registrations s))" by simp
      then have "ar_id x \<in> ar_id ` set (filter P (registrations s))" by (rule imageI)
      with n show False by contradiction
    qed
  qed
  then show ?thesis by (rule iffD2 [OF filter_empty_conv])
qed

text \<open>
  C7, as the code has it. \<open>removeRegistrationForGroup\<close> returns whether the group had a
  registration for the assignment, and none is left afterwards; without one it returns
  false and changes nothing. \<open>removeRegistrations\<close> returns nothing, leaves no
  registration of the assignment, and changes nothing when there was none. Only
  \<open>removeRegistrationForUser\<close> throws: \<open>EntityNotFoundError\<close>, exactly when no registration
  matches the assignment and the user; otherwise it returns true.
\<close>

theorem registration_removal_results:
  "fst (removeRegistrationForGroup a g s) = (registrationsOf a g s \<noteq> [])
   \<and> registrationsOf a g (snd (removeRegistrationForGroup a g s)) = []
   \<and> (registrationsOf a g s = [] \<longrightarrow> removeRegistrationForGroup a g s = (False, s))
   \<and> filter (\<lambda>r. ar_assignmentId r = a) (registrations (snd (removeRegistrations a s))) = []
   \<and> (filter (\<lambda>r. ar_assignmentId r = a) (registrations s) = []
        \<longrightarrow> removeRegistrations a s = ((), s))
   \<and> (removeRegistrationForUser ofUser a u s = Inl EntityNotFoundError)
        = (\<not> (\<exists>r \<in> set (registrations s). ar_assignmentId r = a \<and> ofUser r u))
   \<and> (case removeRegistrationForUser ofUser a u s of
         Inl e \<Rightarrow> e = EntityNotFoundError
       | Inr (b, s') \<Rightarrow> b)"
proof -
  have g1: "fst (removeRegistrationForGroup a g s) = (registrationsOf a g s \<noteq> [])"
    by (simp add: removeRegistrationForGroup_def registrationsOf_def Let_def)
  have g2: "registrationsOf a g (snd (removeRegistrationForGroup a g s)) = []"
    using removeRows_removes [of "\<lambda>r. ar_assignmentId r = a \<and> ar_groupId r = g" s]
    by (simp add: removeRegistrationForGroup_def registrationsOf_def Let_def)
  have g3: "registrationsOf a g s = [] \<longrightarrow> removeRegistrationForGroup a g s = (False, s)"
    by (simp add: removeRegistrationForGroup_def registrationsOf_def Let_def)
  have a1: "filter (\<lambda>r. ar_assignmentId r = a) (registrations (snd (removeRegistrations a s))) = []"
    using removeRows_removes [of "\<lambda>r. ar_assignmentId r = a" s]
    by (simp add: removeRegistrations_def)
  have a2: "filter (\<lambda>r. ar_assignmentId r = a) (registrations s) = []
        \<longrightarrow> removeRegistrations a s = ((), s)"
    by (simp add: removeRegistrations_def removeRows_nil)
  have u1: "(removeRegistrationForUser ofUser a u s = Inl EntityNotFoundError)
        = (\<not> (\<exists>r \<in> set (registrations s). ar_assignmentId r = a \<and> ofUser r u))"
  proof (cases "find (\<lambda>r. ar_assignmentId r = a \<and> ofUser r u) (registrations s)")
    case None
    then have "\<not> (\<exists>r \<in> set (registrations s). ar_assignmentId r = a \<and> ofUser r u)"
      by (simp add: find_None_iff)
    with None show ?thesis
      by (simp add: removeRegistrationForUser_def)
  next
    case (Some r)
    have "\<exists>r \<in> set (registrations s). ar_assignmentId r = a \<and> ofUser r u"
    proof (rule ccontr)
      assume "\<not> (\<exists>r \<in> set (registrations s). ar_assignmentId r = a \<and> ofUser r u)"
      then have "find (\<lambda>r. ar_assignmentId r = a \<and> ofUser r u) (registrations s) = None"
        by (simp add: find_None_iff)
      with Some show False by simp
    qed
    with Some show ?thesis
      by (simp add: removeRegistrationForUser_def)
  qed
  have u2: "case removeRegistrationForUser ofUser a u s of
         Inl e \<Rightarrow> e = EntityNotFoundError
       | Inr (b, s') \<Rightarrow> b"
    by (simp add: removeRegistrationForUser_def split: option.splits)
  show ?thesis
    by (intro conjI) (rule g1, rule g2, rule g3, rule a1, rule a2, rule u1, rule u2)
qed

theorem registration_removal_results_witness:
  "registrationsOf ''a1'' ''g2''
      \<lparr> registrations = [\<lparr> ar_id = 0, ar_assignmentId = ''a1'', ar_groupId = ''g1'' \<rparr>],
        groupRelations = [\<lparr> grr_id = 0, grr_assignmentRegistrationId = 0, grr_participantId = 1 \<rparr>],
        nextRegistrationId = 1, nextGroupRelationId = 1 \<rparr> = []
   \<and> removeRegistrationForGroup ''a1'' ''g2''
      \<lparr> registrations = [\<lparr> ar_id = 0, ar_assignmentId = ''a1'', ar_groupId = ''g1'' \<rparr>],
        groupRelations = [\<lparr> grr_id = 0, grr_assignmentRegistrationId = 0, grr_participantId = 1 \<rparr>],
        nextRegistrationId = 1, nextGroupRelationId = 1 \<rparr>
     = (False,
      \<lparr> registrations = [\<lparr> ar_id = 0, ar_assignmentId = ''a1'', ar_groupId = ''g1'' \<rparr>],
        groupRelations = [\<lparr> grr_id = 0, grr_assignmentRegistrationId = 0, grr_participantId = 1 \<rparr>],
        nextRegistrationId = 1, nextGroupRelationId = 1 \<rparr>)
   \<and> removeRegistrations ''a2''
      \<lparr> registrations = [\<lparr> ar_id = 0, ar_assignmentId = ''a1'', ar_groupId = ''g1'' \<rparr>],
        groupRelations = [\<lparr> grr_id = 0, grr_assignmentRegistrationId = 0, grr_participantId = 1 \<rparr>],
        nextRegistrationId = 1, nextGroupRelationId = 1 \<rparr>
     = ((),
      \<lparr> registrations = [\<lparr> ar_id = 0, ar_assignmentId = ''a1'', ar_groupId = ''g1'' \<rparr>],
        groupRelations = [\<lparr> grr_id = 0, grr_assignmentRegistrationId = 0, grr_participantId = 1 \<rparr>],
        nextRegistrationId = 1, nextGroupRelationId = 1 \<rparr>)
   \<and> removeRegistrationForUser
        (hasMemberOfUser [(1, ''u1'')]
          \<lparr> registrations = [\<lparr> ar_id = 0, ar_assignmentId = ''a1'', ar_groupId = ''g1'' \<rparr>],
            groupRelations = [\<lparr> grr_id = 0, grr_assignmentRegistrationId = 0, grr_participantId = 1 \<rparr>],
            nextRegistrationId = 1, nextGroupRelationId = 1 \<rparr>)
        ''a1'' ''u2''
      \<lparr> registrations = [\<lparr> ar_id = 0, ar_assignmentId = ''a1'', ar_groupId = ''g1'' \<rparr>],
        groupRelations = [\<lparr> grr_id = 0, grr_assignmentRegistrationId = 0, grr_participantId = 1 \<rparr>],
        nextRegistrationId = 1, nextGroupRelationId = 1 \<rparr>
     = Inl EntityNotFoundError"
proof -
  let ?s = "\<lparr> registrations = [\<lparr> ar_id = 0, ar_assignmentId = ''a1'', ar_groupId = ''g1'' \<rparr>],
        groupRelations = [\<lparr> grr_id = 0, grr_assignmentRegistrationId = 0, grr_participantId = 1 \<rparr>],
        nextRegistrationId = 1, nextGroupRelationId = 1 \<rparr>"
  let ?ofUser = "hasMemberOfUser [(1, ''u1'')] ?s"
  have h1: "registrationsOf ''a1'' ''g2'' ?s = []"
    by (simp add: registrationsOf_def)
  have h2: "filter (\<lambda>r. ar_assignmentId r = ''a2'') (registrations ?s) = []"
    by simp
  have h3: "\<not> (\<exists>r \<in> set (registrations ?s). ar_assignmentId r = ''a1'' \<and> ?ofUser r ''u2'')"
    by (simp add: hasMemberOfUser_def)
  note t1 = registration_removal_results
              [where a = "''a1''" and g = "''g2''" and s = ?s and ofUser = ?ofUser and u = "''u2''"]
  note t2 = registration_removal_results
              [where a = "''a2''" and g = "''g2''" and s = ?s and ofUser = ?ofUser and u = "''u2''"]
  have "removeRegistrationForGroup ''a1'' ''g2'' ?s = (False, ?s)"
    using t1 h1 by blast
  moreover have "removeRegistrations ''a2'' ?s = ((), ?s)"
    using t2 h2 by blast
  moreover have "removeRegistrationForUser ?ofUser ''a1'' ''u2'' ?s = Inl EntityNotFoundError"
    using t1 h3 by blast
  ultimately show ?thesis using h1 by blast
qed

text \<open>
  C7 as stated fails at the count: \<open>removeRegistrations\<close> returns the same value when it
  removes the two registrations of an assignment and when it removes none.
\<close>

theorem removal_count_counterexample:
  "fst (removeRegistrations ''a1''
      \<lparr> registrations = [\<lparr> ar_id = 0, ar_assignmentId = ''a1'', ar_groupId = ''g1'' \<rparr>,
                         \<lparr> ar_id = 1, ar_assignmentId = ''a1'', ar_groupId = ''g2'' \<rparr>],
        groupRelations = [], nextRegistrationId = 2, nextGroupRelationId = 0 \<rparr>)
     = fst (removeRegistrations ''a1''
      \<lparr> registrations = [], groupRelations = [], nextRegistrationId = 0,
        nextGroupRelationId = 0 \<rparr>)
   \<and> length (registrations (snd (removeRegistrations ''a1''
      \<lparr> registrations = [\<lparr> ar_id = 0, ar_assignmentId = ''a1'', ar_groupId = ''g1'' \<rparr>,
                         \<lparr> ar_id = 1, ar_assignmentId = ''a1'', ar_groupId = ''g2'' \<rparr>],
        groupRelations = [], nextRegistrationId = 2, nextGroupRelationId = 0 \<rparr>))) + 2
     = length (registrations
      \<lparr> registrations = [\<lparr> ar_id = 0, ar_assignmentId = ''a1'', ar_groupId = ''g1'' \<rparr>,
                         \<lparr> ar_id = 1, ar_assignmentId = ''a1'', ar_groupId = ''g2'' \<rparr>],
        groupRelations = [], nextRegistrationId = 2, nextGroupRelationId = 0 \<rparr>)
   \<and> snd (removeRegistrations ''a1''
      \<lparr> registrations = [], groupRelations = [], nextRegistrationId = 0,
        nextGroupRelationId = 0 \<rparr>)
     = \<lparr> registrations = [], groupRelations = [], nextRegistrationId = 0,
        nextGroupRelationId = 0 \<rparr>
   \<and> fst (removeRegistrationForGroup ''a1'' ''g1''
      \<lparr> registrations = [\<lparr> ar_id = 0, ar_assignmentId = ''a1'', ar_groupId = ''g1'' \<rparr>,
                         \<lparr> ar_id = 1, ar_assignmentId = ''a1'', ar_groupId = ''g2'' \<rparr>],
        groupRelations = [], nextRegistrationId = 2, nextGroupRelationId = 0 \<rparr>) = True"
  by (simp add: removeRegistrations_def removeRows_def removeRegistrationForGroup_def)

end
